theory Spec2Isabelle
  imports Main "HOL-Library.Monad_Syntax"
begin

section \<open>Data model\<close>

text \<open>
  The undo engine of the warehouse stock ledger is the \<open>POST\<close> handler of
  \<^verbatim>\<open>src/app/api/stock/history/route.ts\<close>; the client-side eligibility
  predicate is \<open>hasNewerTransactions\<close> of
  \<^verbatim>\<open>src/components/transaction-history-table.tsx\<close>.

  The Prisma schema is not part of the sources. The rows are modelled with the
  fields the handler and the seed script read and write. Identifiers are
  strings, quantities are integers (a JavaScript \<open>number\<close> holding a Prisma
  \<open>Int\<close>), and a \<open>Date\<close> is its number of milliseconds since the epoch. The
  foreign keys to the item, location and user tables belong to the schema and
  are not modelled: the handler is given rows whose identifiers exist. The
  \<open>fromLocationId\<close> and \<open>toLocationId\<close> of a row may be null, as the non-null
  assertions of the handler show.
\<close>

datatype TransactionType = PUTAWAY | REMOVE | MOVE

datatype TransactionStatus = COMPLETED | UNDONE

record Transaction =
  id_tx :: string
  type :: TransactionType
  quantity :: int
  itemId :: string
  fromLocationId :: "string option"
  toLocationId :: "string option"
  userId :: string
  createdAt :: int
  status :: TransactionStatus
  undoneAt :: "int option"
  undoneById :: "string option"

text \<open>
  The \<open>stock\<close> table has the compound unique key \<open>itemId_locationId\<close>, so it is
  a partial map from (item, location) to the quantity of the row. The
  \<open>transaction\<close> table is the list of its rows.
\<close>

type_synonym StockTable = "string \<times> string \<rightharpoonup> int"

record db =
  transactions :: "Transaction list"
  stock :: StockTable

section \<open>Responses\<close>

text \<open>
  An error response is \<^verbatim>\<open>NextResponse.json({ error: message }, { status: code })\<close>.
  The names of the specification's errors are given to the responses the
  handler builds. \<open>Failed\<close> is the response of the \<^verbatim>\<open>catch\<close> block, which
  every exception thrown in the handler reaches.
\<close>

datatype error = ErrorResponse string nat

definition NotFound :: error where
  "NotFound = ErrorResponse ''Transaction not found'' 404"

definition AlreadyUndone :: error where
  "AlreadyUndone = ErrorResponse ''Transaction already undone'' 400"

definition NotLatest :: error where
  "NotLatest = ErrorResponse ''Can only undo the most recent transaction for an item'' 400"

definition InsufficientStock :: error where
  "InsufficientStock = ErrorResponse ''Insufficient stock at destination location'' 400"

definition Failed :: error where
  "Failed = ErrorResponse ''Failed to undo transaction'' 500"

section \<open>The queries and updates of the handler\<close>

text \<open>\<^verbatim>\<open>prisma.transaction.findUnique({ where: { id: transactionId } })\<close>\<close>

definition findUnique_transaction :: "db \<Rightarrow> string \<Rightarrow> Transaction option" where
  "findUnique_transaction s transactionId =
     find (\<lambda>t. id_tx t = transactionId) (transactions s)"

text \<open>
  \<^verbatim>\<open>prisma.transaction.findFirst({ where: { itemId, createdAt: { gt }, status: 'COMPLETED' } })\<close>
\<close>

definition moreRecentTransaction :: "db \<Rightarrow> Transaction \<Rightarrow> Transaction option" where
  "moreRecentTransaction s transaction =
     find (\<lambda>t. itemId t = itemId transaction
              \<and> createdAt t > createdAt transaction
              \<and> status t = COMPLETED) (transactions s)"

text \<open>
  Step 3 of the handler: the stock check for \<open>MOVE\<close> and \<open>PUTAWAY\<close>. The result
  is \<open>canUndo\<close>, or the exception thrown on the way. The non-null assertion
  \<^verbatim>\<open>transaction.toLocationId!\<close> checks nothing at run time: a null location
  reaches Prisma, which rejects the query. Inside the branch taken when the
  row is missing or too small, \<^verbatim>\<open>console.log(destinationStock.quantity, ...)\<close>
  runs before \<open>canUndo\<close> is cleared, and reading \<open>quantity\<close> of \<open>null\<close> throws.
\<close>

definition canUndo :: "db \<Rightarrow> Transaction \<Rightarrow> error + bool" where
  "canUndo s transaction =
     (if type transaction = MOVE \<or> type transaction = PUTAWAY then
        (case toLocationId transaction of
           None \<Rightarrow> Inl Failed
         | Some locationId \<Rightarrow>
             (case stock s (itemId transaction, locationId) of
                None \<Rightarrow> Inl Failed
              | Some destinationStock \<Rightarrow>
                  if destinationStock < quantity transaction then Inr False
                  else Inr True))
      else Inr True)"

text \<open>
  The quantity column of the \<open>stock\<close> table is a Prisma \<open>Int\<close>, a signed 32-bit
  integer. A write whose result does not fit is rejected, and the exception
  reaches the \<^verbatim>\<open>catch\<close> block of the handler.
\<close>

definition fitsInt :: "int \<Rightarrow> bool" where
  "fitsInt v \<longleftrightarrow> - 2147483648 \<le> v \<and> v \<le> 2147483647"

text \<open>
  \<^verbatim>\<open>tx.stock.update({ where, data: { quantity: { decrement } } })\<close>: fails when
  the row does not exist (or the location is null), and when the decremented
  quantity does not fit the column.
\<close>

definition stock_update :: "StockTable \<Rightarrow> string \<Rightarrow> string option \<Rightarrow> int \<Rightarrow> StockTable option" where
  "stock_update st item location decrement =
     (case location of
        None \<Rightarrow> None
      | Some locationId \<Rightarrow>
          (case st (item, locationId) of
             None \<Rightarrow> None
           | Some q \<Rightarrow>
               if fitsInt (q - decrement)
               then Some (st((item, locationId) \<mapsto> q - decrement))
               else None))"

text \<open>
  \<^verbatim>\<open>tx.stock.upsert({ where, create: { quantity }, update: { quantity: { increment } } })\<close>:
  creates the row when there is none and increments it otherwise; fails when
  the location is null, and when the new quantity does not fit the column.
\<close>

definition stock_upsert :: "StockTable \<Rightarrow> string \<Rightarrow> string option \<Rightarrow> int \<Rightarrow> StockTable option" where
  "stock_upsert st item location increment =
     (case location of
        None \<Rightarrow> None
      | Some locationId \<Rightarrow>
          (case st (item, locationId) of
             None \<Rightarrow>
               if fitsInt increment
               then Some (st((item, locationId) \<mapsto> increment))
               else None
           | Some q \<Rightarrow>
               if fitsInt (q + increment)
               then Some (st((item, locationId) \<mapsto> q + increment))
               else None))"

text \<open>
  \<^verbatim>\<open>tx.transaction.update({ where: { id }, data: { status: 'UNDONE', undoneAt, undoneById } })\<close>:
  fails when no row has the id, and returns the updated row.
\<close>

definition markUndone :: "int \<Rightarrow> string \<Rightarrow> Transaction \<Rightarrow> Transaction" where
  "markUndone now undoneBy t =
     t\<lparr>status := UNDONE, undoneAt := Some now, undoneById := Some undoneBy\<rparr>"

definition transaction_update ::
  "Transaction list \<Rightarrow> string \<Rightarrow> int \<Rightarrow> string \<Rightarrow> (Transaction list \<times> Transaction) option" where
  "transaction_update txs transactionId now undoneBy =
     (case find (\<lambda>t. id_tx t = transactionId) txs of
        None \<Rightarrow> None
      | Some t \<Rightarrow>
          Some (map (\<lambda>t. if id_tx t = transactionId then markUndone now undoneBy t else t) txs,
                markUndone now undoneBy t))"

section \<open>The undo handler\<close>

text \<open>
  Step 4: the callback of \<^verbatim>\<open>prisma.$transaction\<close>. \<open>None\<close> is an exception
  thrown inside it, which rolls every write of the callback back. The row is
  marked as undone by \<^verbatim>\<open>transaction.userId\<close>, the user who made the
  transaction.
\<close>

definition undoTransaction ::
  "db \<Rightarrow> int \<Rightarrow> string \<Rightarrow> Transaction \<Rightarrow> (db \<times> Transaction) option" where
  "undoTransaction s now transactionId transaction = do {
     st \<leftarrow> (case type transaction of
              PUTAWAY \<Rightarrow>
                stock_update (stock s) (itemId transaction) (toLocationId transaction)
                  (quantity transaction)
            | REMOVE \<Rightarrow>
                stock_upsert (stock s) (itemId transaction) (fromLocationId transaction)
                  (quantity transaction)
            | MOVE \<Rightarrow> do {
                st1 \<leftarrow> stock_update (stock s) (itemId transaction) (toLocationId transaction)
                         (quantity transaction);
                stock_upsert st1 (itemId transaction) (fromLocationId transaction)
                  (quantity transaction)
              });
     (txs, updatedTransaction) \<leftarrow>
        transaction_update (transactions s) transactionId now (userId transaction);
     Some (\<lparr>transactions = txs, stock = st\<rparr>, updatedTransaction)
   }"

text \<open>
  The handler. The request body is the JSON object sent by the client, a map
  from its keys to their string values; the handler reads the key
  \<open>transactionId\<close> and nothing else. Without a string under that key (or
  without a JSON object at all) the lookup throws, and the \<^verbatim>\<open>catch\<close> block
  answers. \<open>now\<close> is the value of \<^verbatim>\<open>new Date()\<close>. The result is the response
  and the database after the call: the database is the one before the call
  unless the callback of \<^verbatim>\<open>prisma.$transaction\<close> returned.
\<close>

definition POST :: "db \<Rightarrow> int \<Rightarrow> (string \<rightharpoonup> string) \<Rightarrow> (error + Transaction) \<times> db" where
  "POST s now body =
     (case body ''transactionId'' of
        None \<Rightarrow> (Inl Failed, s)
      | Some transactionId \<Rightarrow>
          (case findUnique_transaction s transactionId of
             None \<Rightarrow> (Inl NotFound, s)
           | Some transaction \<Rightarrow>
               if status transaction = UNDONE then (Inl AlreadyUndone, s)
               else
                 (case moreRecentTransaction s transaction of
                    Some newer \<Rightarrow> (Inl NotLatest, s)
                  | None \<Rightarrow>
                      (case canUndo s transaction of
                         Inl e \<Rightarrow> (Inl e, s)
                       | Inr False \<Rightarrow> (Inl InsufficientStock, s)
                       | Inr True \<Rightarrow>
                           (case undoTransaction s now transactionId transaction of
                              None \<Rightarrow> (Inl Failed, s)
                            | Some (s', result) \<Rightarrow> (Inr result, s'))))))"

text \<open>
  The two halves of the handler. Steps 1 to 3 are reads on \<^verbatim>\<open>prisma\<close>, each
  awaited, before \<^verbatim>\<open>prisma.$transaction\<close> is called; step 4 is the
  transaction, which holds the writes only. \<open>validate\<close> is the first half: the
  error response, or the decision to undo with the id and the row that were
  read. \<open>commit\<close> is the second half, on the database as it is when the
  transaction starts, with the row read by the first half. The handler is
  \<open>commit\<close> after \<open>validate\<close> on one and the same database
  (\<open>POST_validate_commit\<close> below); between two requests that overlap, the
  database of \<open>commit\<close> need not be the one \<open>validate\<close> has read.
\<close>

definition validate :: "db \<Rightarrow> (string \<rightharpoonup> string) \<Rightarrow> error + string \<times> Transaction" where
  "validate s body =
     (case body ''transactionId'' of
        None \<Rightarrow> Inl Failed
      | Some transactionId \<Rightarrow>
          (case findUnique_transaction s transactionId of
             None \<Rightarrow> Inl NotFound
           | Some transaction \<Rightarrow>
               if status transaction = UNDONE then Inl AlreadyUndone
               else
                 (case moreRecentTransaction s transaction of
                    Some newer \<Rightarrow> Inl NotLatest
                  | None \<Rightarrow>
                      (case canUndo s transaction of
                         Inl e \<Rightarrow> Inl e
                       | Inr False \<Rightarrow> Inl InsufficientStock
                       | Inr True \<Rightarrow> Inr (transactionId, transaction)))))"

definition commit :: "db \<Rightarrow> int \<Rightarrow> string \<Rightarrow> Transaction \<Rightarrow> (error + Transaction) \<times> db" where
  "commit s now transactionId transaction =
     (case undoTransaction s now transactionId transaction of
        None \<Rightarrow> (Inl Failed, s)
      | Some (s', result) \<Rightarrow> (Inr result, s'))"

section \<open>The client-side eligibility predicate\<close>

text \<open>
  \<open>hasNewerTransactions\<close> of the history table: the rows of the list with the
  same item, status \<open>COMPLETED\<close> and a later date are kept by the filter, and
  the button is disabled when one is left. The rows are those of the server's
  JSON, and \<^verbatim>\<open>new Date(t.createdAt)\<close> is the date of the row again.
\<close>

definition hasNewerTransactions :: "Transaction list \<Rightarrow> Transaction \<Rightarrow> bool" where
  "hasNewerTransactions txs currentTransaction =
     (let newerTransactions =
        filter (\<lambda>t. itemId t = itemId currentTransaction
                  \<and> status t = COMPLETED
                  \<and> createdAt t > createdAt currentTransaction) txs
      in length newerTransactions > 0)"

section \<open>Example states\<close>

text \<open>
  Two put-aways of item \<open>X\<close> into location \<open>L1\<close>, both completed, and the stock
  they leave. A request carries the transaction id and the id of the user who
  asks for the undo.
\<close>

definition putaway_T1 :: Transaction where
  "putaway_T1 = \<lparr>id_tx = ''T1'', type = PUTAWAY, quantity = 10, itemId = ''X'',
     fromLocationId = None, toLocationId = Some ''L1'', userId = ''alice'',
     createdAt = 1000, status = COMPLETED, undoneAt = None, undoneById = None\<rparr>"

definition putaway_T2 :: Transaction where
  "putaway_T2 = \<lparr>id_tx = ''T2'', type = PUTAWAY, quantity = 5, itemId = ''X'',
     fromLocationId = None, toLocationId = Some ''L1'', userId = ''alice'',
     createdAt = 2000, status = COMPLETED, undoneAt = None, undoneById = None\<rparr>"

definition db_two_putaways :: db where
  "db_two_putaways = \<lparr>transactions = [putaway_T2, putaway_T1],
     stock = [(''X'', ''L1'') \<mapsto> 15]\<rparr>"

definition undo_request :: "string \<Rightarrow> string \<Rightarrow> (string \<rightharpoonup> string)" where
  "undo_request transactionId requestingUserId =
     [''transactionId'' \<mapsto> transactionId, ''requestingUserId'' \<mapsto> requestingUserId]"

text \<open>
  The state after a move of 5 of item \<open>X\<close> from \<open>L1\<close> (which held 5) to \<open>L2\<close>
  (which held none) and a later removal of 1 from \<open>L2\<close>: both records
  completed, \<open>L1\<close> at 0 and \<open>L2\<close> at 4. \<open>db_move_short\<close> has the same stock and
  the move as the only record; \<open>db_putaway_no_row\<close> has a put-away and no stock
  row at its destination.
\<close>

definition move_T1 :: Transaction where
  "move_T1 = \<lparr>id_tx = ''T1'', type = MOVE, quantity = 5, itemId = ''X'',
     fromLocationId = Some ''L1'', toLocationId = Some ''L2'', userId = ''alice'',
     createdAt = 1000, status = COMPLETED, undoneAt = None, undoneById = None\<rparr>"

definition remove_T2 :: Transaction where
  "remove_T2 = \<lparr>id_tx = ''T2'', type = REMOVE, quantity = 1, itemId = ''X'',
     fromLocationId = Some ''L2'', toLocationId = None, userId = ''alice'',
     createdAt = 2000, status = COMPLETED, undoneAt = None, undoneById = None\<rparr>"

definition db_move_then_remove :: db where
  "db_move_then_remove = \<lparr>transactions = [remove_T2, move_T1],
     stock = [(''X'', ''L1'') \<mapsto> 0, (''X'', ''L2'') \<mapsto> 4]\<rparr>"

definition db_move_short :: db where
  "db_move_short = \<lparr>transactions = [move_T1],
     stock = [(''X'', ''L1'') \<mapsto> 0, (''X'', ''L2'') \<mapsto> 4]\<rparr>"

definition db_putaway_no_row :: db where
  "db_putaway_no_row = \<lparr>transactions = [putaway_T1], stock = Map.empty\<rparr>"

text \<open>A removal from a location whose stock row no longer exists.\<close>

definition db_remove_no_row :: db where
  "db_remove_no_row = \<lparr>transactions = [remove_T2], stock = Map.empty\<rparr>"

text \<open>
  A move of item \<open>X\<close> next to a put-away of another item \<open>Y\<close> into the same
  destination.
\<close>

definition putaway_Y :: Transaction where
  "putaway_Y = \<lparr>id_tx = ''T0'', type = PUTAWAY, quantity = 7, itemId = ''Y'',
     fromLocationId = None, toLocationId = Some ''L2'', userId = ''carol'',
     createdAt = 500, status = COMPLETED, undoneAt = None, undoneById = None\<rparr>"

definition db_move_and_other :: db where
  "db_move_and_other = \<lparr>transactions = [move_T1, putaway_Y],
     stock = [(''X'', ''L1'') \<mapsto> 0, (''X'', ''L2'') \<mapsto> 5, (''Y'', ''L2'') \<mapsto> 7]\<rparr>"

text \<open>
  A put-away of 10 into \<open>L1\<close> and a removal of 8 from \<open>L1\<close> recorded in the same
  millisecond, then a put-away of 5 into \<open>L1\<close>: 7 are left.
\<close>

definition remove_T3 :: Transaction where
  "remove_T3 = \<lparr>id_tx = ''T3'', type = REMOVE, quantity = 8, itemId = ''X'',
     fromLocationId = Some ''L1'', toLocationId = None, userId = ''alice'',
     createdAt = 1000, status = COMPLETED, undoneAt = None, undoneById = None\<rparr>"

definition db_equal_dates :: db where
  "db_equal_dates = \<lparr>transactions = [putaway_T2, remove_T3, putaway_T1],
     stock = [(''X'', ''L1'') \<mapsto> 7]\<rparr>"

text \<open>A removal from a location that now holds the largest quantity of the column.\<close>

definition db_remove_full :: db where
  "db_remove_full = \<lparr>transactions = [remove_T2],
     stock = [(''X'', ''L2'') \<mapsto> 2147483647]\<rparr>"

text \<open>One put-away of 10 into \<open>L1\<close>, and the 10 it left there.\<close>

definition db_single_putaway :: db where
  "db_single_putaway = \<lparr>transactions = [putaway_T1], stock = [(''X'', ''L1'') \<mapsto> 10]\<rparr>"

section \<open>Basic facts about the handler\<close>

lemmas handler_defs =
  POST_def findUnique_transaction_def moreRecentTransaction_def canUndo_def
  undoTransaction_def stock_update_def stock_upsert_def transaction_update_def markUndone_def
  fitsInt_def

lemma errors_distinct:
  "NotFound \<noteq> AlreadyUndone" "NotFound \<noteq> NotLatest" "NotFound \<noteq> InsufficientStock" "NotFound \<noteq> Failed"
  "AlreadyUndone \<noteq> NotLatest" "AlreadyUndone \<noteq> InsufficientStock" "AlreadyUndone \<noteq> Failed"
  "NotLatest \<noteq> InsufficientStock" "NotLatest \<noteq> Failed" "InsufficientStock \<noteq> Failed"
  "NotLatest \<noteq> NotFound" "NotLatest \<noteq> AlreadyUndone" "InsufficientStock \<noteq> NotLatest" "Failed \<noteq> NotLatest"
  "Failed \<noteq> InsufficientStock"
  by (simp_all add: NotFound_def AlreadyUndone_def NotLatest_def InsufficientStock_def Failed_def)

lemma POST_error_unchanged:
  "POST s now body = (Inl e, s') \<Longrightarrow> s' = s"
  by (auto simp: POST_def split: option.splits if_splits sum.splits bool.splits)

lemma status_not_UNDONE: "status t \<noteq> UNDONE \<longleftrightarrow> status t = COMPLETED"
  by (cases "status t") auto

lemma POST_success_iff:
  "POST s now body = (Inr r, s') \<longleftrightarrow>
     (\<exists>tid R. body ''transactionId'' = Some tid \<and> findUnique_transaction s tid = Some R
        \<and> status R = COMPLETED \<and> moreRecentTransaction s R = None
        \<and> canUndo s R = Inr True \<and> undoTransaction s now tid R = Some (s', r))"
  by (auto simp: POST_def status_not_UNDONE split: option.splits if_splits sum.splits bool.splits)

lemma POST_NotLatest_iff:
  "findUnique_transaction s tid = Some R \<Longrightarrow> status R = COMPLETED \<Longrightarrow> body ''transactionId'' = Some tid \<Longrightarrow>
   fst (POST s now body) = Inl NotLatest \<longleftrightarrow> moreRecentTransaction s R \<noteq> None"
  by (auto simp: POST_def errors_distinct canUndo_def split: option.splits if_splits sum.splits bool.splits)

lemma moreRecentTransaction_None_iff:
  "moreRecentTransaction s R = None \<longleftrightarrow>
     \<not> (\<exists>t\<in>set (transactions s). itemId t = itemId R \<and> status t = COMPLETED \<and> createdAt R < createdAt t)"
  by (auto simp: moreRecentTransaction_def find_None_iff)

lemma findUnique_transaction_SomeD:
  "findUnique_transaction s tid = Some R \<Longrightarrow> R \<in> set (transactions s) \<and> id_tx R = tid"
  by (auto simp: findUnique_transaction_def find_Some_iff)

lemma id_tx_markUndone: "id_tx (markUndone now u t) = id_tx t"
  by (simp add: markUndone_def)

lemma find_id_map_update:
  "find (\<lambda>t. id_tx t = a) (map (\<lambda>t. if id_tx t = b then markUndone now u t else t) xs)
     = map_option (\<lambda>t. if id_tx t = b then markUndone now u t else t) (find (\<lambda>t. id_tx t = a) xs)"
  by (induction xs) (auto simp: id_tx_markUndone)

lemma undoTransaction_transactions:
  "undoTransaction s now tid R = Some (s', r) \<Longrightarrow>
     transactions s' = map (\<lambda>t. if id_tx t = tid then markUndone now (userId R) t else t) (transactions s)
     \<and> (\<exists>t. findUnique_transaction s tid = Some t \<and> r = markUndone now (userId R) t)"
  by (auto simp: undoTransaction_def transaction_update_def findUnique_transaction_def
           split: option.splits Option.bind_splits TransactionType.splits)

lemma undoTransaction_stock:
  "undoTransaction s now tid R = Some (s', r) \<Longrightarrow>
     Some (stock s') =
       (case type R of
          PUTAWAY \<Rightarrow> stock_update (stock s) (itemId R) (toLocationId R) (quantity R)
        | REMOVE \<Rightarrow> stock_upsert (stock s) (itemId R) (fromLocationId R) (quantity R)
        | MOVE \<Rightarrow> Option.bind (stock_update (stock s) (itemId R) (toLocationId R) (quantity R))
                     (\<lambda>st1. stock_upsert st1 (itemId R) (fromLocationId R) (quantity R)))"
  by (auto simp: undoTransaction_def 
           split: option.splits Option.bind_splits TransactionType.splits)

lemma stock_upsert_fits:
  "fitsInt (case st (item, l) of None \<Rightarrow> q | Some c \<Rightarrow> c + q) \<Longrightarrow>
     stock_upsert st item (Some l) q =
       Some (st((item, l) \<mapsto> (case st (item, l) of None \<Rightarrow> q | Some c \<Rightarrow> c + q)))"
  by (cases "st (item, l)") (simp_all add: stock_upsert_def)

lemma stock_upsert_overflow:
  "\<not> fitsInt (case st (item, l) of None \<Rightarrow> q | Some c \<Rightarrow> c + q) \<Longrightarrow>
     stock_upsert st item (Some l) q = None"
  by (cases "st (item, l)") (simp_all add: stock_upsert_def)

lemma POST_validate_commit:
  "POST s now body =
     (case validate s body of
        Inl e \<Rightarrow> (Inl e, s)
      | Inr (transactionId, transaction) \<Rightarrow> commit s now transactionId transaction)"
  by (simp add: POST_def validate_def commit_def split: option.splits sum.splits bool.splits)

lemma POST_snd_transactions:
  "transactions (snd (POST s now body)) = transactions s \<or>
   (\<exists>tid u. transactions (snd (POST s now body)) =
       map (\<lambda>t. if id_tx t = tid then markUndone now u t else t) (transactions s))"
proof (cases "fst (POST s now body)")
  case (Inl e)
  then have "POST s now body = (Inl e, snd (POST s now body))" by (metis prod.collapse)
  from POST_error_unchanged[OF this] show ?thesis by simp
next
  case (Inr r)
  then have "POST s now body = (Inr r, snd (POST s now body))" by (metis prod.collapse)
  then show ?thesis unfolding POST_success_iff using undoTransaction_transactions by blast
qed

lemma stock_update_SomeD:
  "stock_update st item location d = Some st' \<Longrightarrow>
     \<exists>l q. location = Some l \<and> st (item, l) = Some q \<and> st' = st((item, l) \<mapsto> q - d)"
  by (auto simp: stock_update_def split: option.splits if_splits)

lemma stock_upsert_SomeD:
  "stock_upsert st item location d = Some st' \<Longrightarrow>
     \<exists>l. location = Some l
       \<and> st' = st((item, l) \<mapsto> (case st (item, l) of None \<Rightarrow> d | Some q \<Rightarrow> q + d))"
  by (auto simp: stock_upsert_def split: option.splits if_splits)


lemma POST_success_effect:
  assumes "POST s now body = (Inr r, s')"
  shows "\<exists>tid R. body ''transactionId'' = Some tid
          \<and> findUnique_transaction s tid = Some R \<and> status R = COMPLETED
          \<and> r = markUndone now (userId R) R
          \<and> findUnique_transaction s' tid = Some r \<and> status r = UNDONE
          \<and> transactions s' =
              map (\<lambda>t. if id_tx t = tid then markUndone now (userId R) t else t) (transactions s)
          \<and> (case type R of
                PUTAWAY \<Rightarrow>
                  (\<exists>l q. toLocationId R = Some l \<and> stock s (itemId R, l) = Some q
                     \<and> stock s' = (stock s)((itemId R, l) \<mapsto> q - quantity R))
              | REMOVE \<Rightarrow>
                  (\<exists>l. fromLocationId R = Some l
                     \<and> stock s' = (stock s)((itemId R, l) \<mapsto>
                          (case stock s (itemId R, l) of
                             None \<Rightarrow> quantity R | Some q \<Rightarrow> q + quantity R)))
              | MOVE \<Rightarrow>
                  (\<exists>lt lf q st1. toLocationId R = Some lt \<and> fromLocationId R = Some lf
                     \<and> stock s (itemId R, lt) = Some q
                     \<and> st1 = (stock s)((itemId R, lt) \<mapsto> q - quantity R)
                     \<and> stock s' = st1((itemId R, lf) \<mapsto>
                          (case st1 (itemId R, lf) of
                             None \<Rightarrow> quantity R | Some c \<Rightarrow> c + quantity R))))"
proof -
  from assms obtain tid R where b: "body ''transactionId'' = Some tid"
    and f: "findUnique_transaction s tid = Some R"
    and c: "status R = COMPLETED"
    and u: "undoTransaction s now tid R = Some (s', r)"
    unfolding POST_success_iff by blast
  from undoTransaction_transactions[OF u] f
  have tx: "transactions s' =
      map (\<lambda>t. if id_tx t = tid then markUndone now (userId R) t else t) (transactions s)"
    and r: "r = markUndone now (userId R) R"
    by simp_all
  from f have "id_tx R = tid" using findUnique_transaction_SomeD by blast
  with f tx r have f': "findUnique_transaction s' tid = Some r"
    by (simp add: findUnique_transaction_def find_id_map_update)
  have ur: "status r = UNDONE" using r by (simp add: markUndone_def)
  have st: "case type R of
              PUTAWAY \<Rightarrow>
                (\<exists>l q. toLocationId R = Some l \<and> stock s (itemId R, l) = Some q
                   \<and> stock s' = (stock s)((itemId R, l) \<mapsto> q - quantity R))
            | REMOVE \<Rightarrow>
                (\<exists>l. fromLocationId R = Some l
                   \<and> stock s' = (stock s)((itemId R, l) \<mapsto>
                        (case stock s (itemId R, l) of
                           None \<Rightarrow> quantity R | Some q \<Rightarrow> q + quantity R)))
            | MOVE \<Rightarrow>
                (\<exists>lt lf q st1. toLocationId R = Some lt \<and> fromLocationId R = Some lf
                   \<and> stock s (itemId R, lt) = Some q
                   \<and> st1 = (stock s)((itemId R, lt) \<mapsto> q - quantity R)
                   \<and> stock s' = st1((itemId R, lf) \<mapsto>
                        (case st1 (itemId R, lf) of
                           None \<Rightarrow> quantity R | Some c \<Rightarrow> c + quantity R)))"
  proof (cases "type R")
    case PUTAWAY
    with undoTransaction_stock[OF u]
    have "stock_update (stock s) (itemId R) (toLocationId R) (quantity R) = Some (stock s')"
      by simp
    from stock_update_SomeD[OF this] PUTAWAY show ?thesis by simp
  next
    case REMOVE
    with undoTransaction_stock[OF u]
    have "stock_upsert (stock s) (itemId R) (fromLocationId R) (quantity R) = Some (stock s')"
      by simp
    from stock_upsert_SomeD[OF this] REMOVE show ?thesis by simp
  next
    case MOVE
    with undoTransaction_stock[OF u]
    obtain st1 where
      dec: "stock_update (stock s) (itemId R) (toLocationId R) (quantity R) = Some st1"
      and inc: "stock_upsert st1 (itemId R) (fromLocationId R) (quantity R) = Some (stock s')"
      by (auto split: Option.bind_splits)
    from stock_update_SomeD[OF dec] stock_upsert_SomeD[OF inc] MOVE show ?thesis
      by auto
  qed
  from b f c r f' ur tx st show ?thesis
    by blast
qed

lemma POST_reads_transactionId_only:
  "body ''transactionId'' = body' ''transactionId'' \<Longrightarrow> POST s now body = POST s now body'"
  by (simp add: POST_def)

lemma POST_success_record:
  assumes "POST s now body = (Inr r, s')"
  shows "\<exists>R. findUnique_transaction s (id_tx r) = Some R \<and> status r = UNDONE
           \<and> undoneAt r = Some now \<and> undoneById r = Some (userId R)"
proof -
  from assms obtain tid R where f: "findUnique_transaction s tid = Some R"
    and u: "undoTransaction s now tid R = Some (s', r)"
    unfolding POST_success_iff by blast
  from undoTransaction_transactions[OF u] f have "r = markUndone now (userId R) R" by simp
  moreover from f have "id_tx R = tid" using findUnique_transaction_SomeD by blast
  ultimately show ?thesis using f by (auto simp: markUndone_def)
qed

section \<open>Undo ordering\<close>

text \<open>
  C1 as stated fails in its last part: after the undo of the newer record has
  succeeded, the undo of the older one need not succeed. With the put-away of
  10 and the removal of 8 recorded in the same millisecond and the later
  put-away of 5, the undo of the first put-away fails with \<open>NotLatest\<close>, the
  undo of the later put-away succeeds and leaves 2, and the undo of the first
  put-away then passes the recency check (the removal is not strictly newer)
  and fails with \<open>InsufficientStock\<close>.
\<close>

theorem undo_older_after_newer_counterexample:
  "findUnique_transaction db_equal_dates ''T1'' = Some putaway_T1
   \<and> findUnique_transaction db_equal_dates ''T2'' = Some putaway_T2
   \<and> status putaway_T1 = COMPLETED \<and> status putaway_T2 = COMPLETED
   \<and> itemId putaway_T1 = itemId putaway_T2
   \<and> createdAt putaway_T1 < createdAt putaway_T2
   \<and> POST db_equal_dates 3000 (undo_request ''T1'' ''bob'') = (Inl NotLatest, db_equal_dates)
   \<and> fst (POST db_equal_dates 3000 (undo_request ''T2'' ''bob'')) =
        Inr (markUndone 3000 ''alice'' putaway_T2)
   \<and> POST (snd (POST db_equal_dates 3000 (undo_request ''T2'' ''bob''))) 4000
          (undo_request ''T1'' ''bob'') =
        (Inl InsufficientStock, snd (POST db_equal_dates 3000 (undo_request ''T2'' ''bob'')))"
  by (simp add: handler_defs db_equal_dates_def putaway_T1_def putaway_T2_def remove_T3_def
        undo_request_def)

text \<open>
  C1, amended. For an undo of a record \<open>R\<close> with status \<open>COMPLETED\<close>, the call
  fails with \<open>NotLatest\<close> (HTTP 400, "Can only undo the most recent transaction
  for an item") if and only if some other record of the same item has status
  \<open>COMPLETED\<close> and a strictly greater \<open>createdAt\<close>; the failing call changes
  nothing. In particular, when \<open>R2\<close> is a newer completed record of the same
  item, the undo of \<open>R\<close> fails with \<open>NotLatest\<close>. After the undo of \<open>R2\<close> has
  succeeded, and when \<open>R2\<close> was the only newer completed record of the item,
  the undo of \<open>R\<close> is no longer rejected as \<open>NotLatest\<close>: it goes on to its stock
  check and its writes, and succeeds if and only if the stock check passes
  and the transaction with the writes commits.
\<close>

theorem undo_not_latest:
  assumes "body ''transactionId'' = Some tid"
    and "findUnique_transaction s tid = Some R"
    and "status R = COMPLETED"
  shows "(fst (POST s now body) = Inl NotLatest \<longleftrightarrow>
           (\<exists>t\<in>set (transactions s). t \<noteq> R \<and> itemId t = itemId R \<and> status t = COMPLETED
               \<and> createdAt R < createdAt t))
       \<and> (fst (POST s now body) = Inl NotLatest \<longrightarrow> POST s now body = (Inl NotLatest, s))
       \<and> (\<forall>tid2 R2 body2 r2 s' now'.
             body2 ''transactionId'' = Some tid2 \<and> findUnique_transaction s tid2 = Some R2
             \<and> status R2 = COMPLETED \<and> itemId R2 = itemId R \<and> createdAt R < createdAt R2
             \<longrightarrow> POST s now body = (Inl NotLatest, s)
               \<and> (POST s now body2 = (Inr r2, s')
                    \<and> (\<forall>t\<in>set (transactions s). itemId t = itemId R \<and> status t = COMPLETED
                           \<and> createdAt R < createdAt t \<longrightarrow> id_tx t = tid2)
                  \<longrightarrow> fst (POST s' now' body) \<noteq> Inl NotLatest
                    \<and> POST s' now' body =
                        (case canUndo s' R of
                           Inl e \<Rightarrow> (Inl e, s')
                         | Inr False \<Rightarrow> (Inl InsufficientStock, s')
                         | Inr True \<Rightarrow> commit s' now' tid R)
                    \<and> ((\<exists>r1 s''. POST s' now' body = (Inr r1, s'')) \<longleftrightarrow>
                         canUndo s' R = Inr True \<and> undoTransaction s' now' tid R \<noteq> None)))"
proof (intro conjI allI impI)
  have "fst (POST s now body) = Inl NotLatest \<longleftrightarrow> moreRecentTransaction s R \<noteq> None"
    using assms by (simp add: POST_NotLatest_iff)
  also have "\<dots> \<longleftrightarrow> (\<exists>t\<in>set (transactions s). itemId t = itemId R \<and> status t = COMPLETED
               \<and> createdAt R < createdAt t)"
    unfolding moreRecentTransaction_None_iff by blast
  also have "\<dots> \<longleftrightarrow> (\<exists>t\<in>set (transactions s). t \<noteq> R \<and> itemId t = itemId R \<and> status t = COMPLETED
               \<and> createdAt R < createdAt t)"
    by auto
  finally show "fst (POST s now body) = Inl NotLatest \<longleftrightarrow>
           (\<exists>t\<in>set (transactions s). t \<noteq> R \<and> itemId t = itemId R \<and> status t = COMPLETED
               \<and> createdAt R < createdAt t)" .
next
  assume "fst (POST s now body) = Inl NotLatest"
  then have "POST s now body = (Inl NotLatest, snd (POST s now body))" by (metis prod.collapse)
  with POST_error_unchanged show "POST s now body = (Inl NotLatest, s)" by metis
next
  fix tid2 R2 body2 r2 s' now'
  assume h: "body2 ''transactionId'' = Some tid2 \<and> findUnique_transaction s tid2 = Some R2
             \<and> status R2 = COMPLETED \<and> itemId R2 = itemId R \<and> createdAt R < createdAt R2"
  then have "R2 \<in> set (transactions s)" using findUnique_transaction_SomeD by blast
  with h have "moreRecentTransaction s R \<noteq> None"
    unfolding moreRecentTransaction_None_iff by blast
  with assms show "POST s now body = (Inl NotLatest, s)"
    by (auto simp: POST_def split: option.splits)
next
  fix tid2 R2 body2 r2 s' now'
  assume h: "body2 ''transactionId'' = Some tid2 \<and> findUnique_transaction s tid2 = Some R2
             \<and> status R2 = COMPLETED \<and> itemId R2 = itemId R \<and> createdAt R < createdAt R2"
  assume g: "POST s now body2 = (Inr r2, s')
                    \<and> (\<forall>t\<in>set (transactions s). itemId t = itemId R \<and> status t = COMPLETED
                           \<and> createdAt R < createdAt t \<longrightarrow> id_tx t = tid2)"
  from g h obtain u where tx: "transactions s' =
      map (\<lambda>t. if id_tx t = tid2 then markUndone now u t else t) (transactions s)"
    unfolding POST_success_iff using undoTransaction_transactions by fastforce
  have ne: "tid \<noteq> tid2"
  proof
    assume "tid = tid2"
    with assms(2) h have "R = R2" by simp
    with h show False by simp
  qed
  have idR: "id_tx R = tid" using assms(2) findUnique_transaction_SomeD by blast
  have f': "findUnique_transaction s' tid = Some R"
    using assms(2) tx ne idR by (simp add: findUnique_transaction_def find_id_map_update)
  have m': "moreRecentTransaction s' R = None"
    unfolding moreRecentTransaction_None_iff using g tx by (auto simp: markUndone_def)
  have v: "validate s' body =
      (case canUndo s' R of
         Inl e \<Rightarrow> Inl e
       | Inr False \<Rightarrow> Inl InsufficientStock
       | Inr True \<Rightarrow> Inr (tid, R))"
    using assms(1,3) f' m' by (simp add: validate_def)
  show eq: "POST s' now' body =
      (case canUndo s' R of
         Inl e \<Rightarrow> (Inl e, s')
       | Inr False \<Rightarrow> (Inl InsufficientStock, s')
       | Inr True \<Rightarrow> commit s' now' tid R)"
    unfolding POST_validate_commit v by (simp split: sum.splits bool.splits)
  show "fst (POST s' now' body) \<noteq> Inl NotLatest"
    unfolding eq
    by (auto simp: canUndo_def commit_def errors_distinct
        split: sum.splits bool.splits option.splits if_splits)
  show "(\<exists>r1 s''. POST s' now' body = (Inr r1, s'')) \<longleftrightarrow>
          canUndo s' R = Inr True \<and> undoTransaction s' now' tid R \<noteq> None"
    unfolding POST_success_iff using assms(1,3) f' m' by auto
qed

theorem undo_not_latest_witness:
  "fst (POST db_two_putaways 3000 (undo_request ''T1'' ''bob'')) = Inl NotLatest
   \<and> putaway_T2 \<in> set (transactions db_two_putaways) \<and> putaway_T2 \<noteq> putaway_T1
   \<and> status putaway_T2 = COMPLETED \<and> createdAt putaway_T1 < createdAt putaway_T2
   \<and> (\<exists>r2 s'. POST db_two_putaways 3000 (undo_request ''T2'' ''bob'') = (Inr r2, s')
         \<and> canUndo s' putaway_T1 = Inr True
         \<and> fst (POST s' 4000 (undo_request ''T1'' ''bob'')) \<noteq> Inl NotLatest
         \<and> (\<exists>r1 s''. POST s' 4000 (undo_request ''T1'' ''bob'') = (Inr r1, s'')))"
proof -
  let ?s = db_two_putaways
  let ?s' = "\<lparr>transactions = [markUndone 3000 ''alice'' putaway_T2, putaway_T1],
               stock = [(''X'', ''L1'') \<mapsto> 10]\<rparr>"
  have b1: "undo_request ''T1'' ''bob'' ''transactionId'' = Some ''T1''"
    and b2: "undo_request ''T2'' ''bob'' ''transactionId'' = Some ''T2''"
    by (simp_all add: undo_request_def)
  have f1: "findUnique_transaction ?s ''T1'' = Some putaway_T1"
    and f2: "findUnique_transaction ?s ''T2'' = Some putaway_T2"
    by (simp_all add: findUnique_transaction_def db_two_putaways_def putaway_T1_def putaway_T2_def)
  have c1: "status putaway_T1 = COMPLETED" and c2: "status putaway_T2 = COMPLETED"
    and i: "itemId putaway_T2 = itemId putaway_T1"
    and lt: "createdAt putaway_T1 < createdAt putaway_T2"
    by (simp_all add: putaway_T1_def putaway_T2_def)
  have p2: "POST ?s 3000 (undo_request ''T2'' ''bob'') = (Inr (markUndone 3000 ''alice'' putaway_T2), ?s')"
    by (simp add: handler_defs db_two_putaways_def putaway_T1_def putaway_T2_def undo_request_def)
  have only: "\<forall>t\<in>set (transactions ?s). itemId t = itemId putaway_T1 \<and> status t = COMPLETED
                 \<and> createdAt putaway_T1 < createdAt t \<longrightarrow> id_tx t = ''T2''"
    by (simp add: db_two_putaways_def putaway_T1_def putaway_T2_def)
  have cu: "canUndo ?s' putaway_T1 = Inr True"
    by (simp add: canUndo_def putaway_T1_def)
  have wr: "undoTransaction ?s' 4000 ''T1'' putaway_T1 \<noteq> None"
    by (simp add: handler_defs putaway_T1_def putaway_T2_def)
  note main = undo_not_latest [where body = "undo_request ''T1'' ''bob''" and tid = "''T1''"
      and s = db_two_putaways and R = putaway_T1 and now = 3000, OF b1 f1 c1]
  from main have all: "\<forall>tid2 R2 body2 r2 s' now'.
             body2 ''transactionId'' = Some tid2 \<and> findUnique_transaction ?s tid2 = Some R2
             \<and> status R2 = COMPLETED \<and> itemId R2 = itemId putaway_T1
             \<and> createdAt putaway_T1 < createdAt R2
             \<longrightarrow> POST ?s 3000 (undo_request ''T1'' ''bob'') = (Inl NotLatest, ?s)
               \<and> (POST ?s 3000 body2 = (Inr r2, s')
                    \<and> (\<forall>t\<in>set (transactions ?s). itemId t = itemId putaway_T1 \<and> status t = COMPLETED
                           \<and> createdAt putaway_T1 < createdAt t \<longrightarrow> id_tx t = tid2)
                  \<longrightarrow> fst (POST s' now' (undo_request ''T1'' ''bob'')) \<noteq> Inl NotLatest
                    \<and> ((\<exists>r1 s''. POST s' now' (undo_request ''T1'' ''bob'') = (Inr r1, s'')) \<longleftrightarrow>
                         canUndo s' putaway_T1 = Inr True
                         \<and> undoTransaction s' now' ''T1'' putaway_T1 \<noteq> None))"
    by blast
  from all b2 f2 c2 i lt p2 only
  have "POST ?s 3000 (undo_request ''T1'' ''bob'') = (Inl NotLatest, ?s)
        \<and> fst (POST ?s' 4000 (undo_request ''T1'' ''bob'')) \<noteq> Inl NotLatest
        \<and> ((\<exists>r1 s''. POST ?s' 4000 (undo_request ''T1'' ''bob'') = (Inr r1, s'')) \<longleftrightarrow>
              canUndo ?s' putaway_T1 = Inr True
              \<and> undoTransaction ?s' 4000 ''T1'' putaway_T1 \<noteq> None)"
    by blast
  with cu wr have "POST ?s 3000 (undo_request ''T1'' ''bob'') = (Inl NotLatest, ?s)
        \<and> fst (POST ?s' 4000 (undo_request ''T1'' ''bob'')) \<noteq> Inl NotLatest
        \<and> (\<exists>r1 s''. POST ?s' 4000 (undo_request ''T1'' ''bob'') = (Inr r1, s''))"
    by blast
  moreover have "putaway_T2 \<in> set (transactions ?s)" "putaway_T2 \<noteq> putaway_T1"
    by (simp_all add: db_two_putaways_def putaway_T1_def putaway_T2_def)
  ultimately show ?thesis using p2 c2 lt cu by simp
qed

section \<open>Undoing twice\<close>

text \<open>
  C6. An undo of a record with status \<open>UNDONE\<close> returns \<open>AlreadyUndone\<close> and
  changes neither the stock nor the records; in particular the second undo
  after a successful one does. No call of the handler takes a record out of
  the status \<open>UNDONE\<close>.
\<close>

theorem undo_already_undone:
  "(body ''transactionId'' = Some tid \<and> findUnique_transaction s tid = Some R \<and> status R = UNDONE
      \<longrightarrow> POST s now body = (Inl AlreadyUndone, s))
   \<and> (POST s now body = (Inr r, s') \<longrightarrow> POST s' now' body = (Inl AlreadyUndone, s'))
   \<and> (\<forall>i < length (transactions s). status (transactions s ! i) = UNDONE
         \<longrightarrow> status (transactions (snd (POST s now body)) ! i) = UNDONE)"
proof (intro conjI impI allI)
  assume "body ''transactionId'' = Some tid \<and> findUnique_transaction s tid = Some R \<and> status R = UNDONE"
  then show "POST s now body = (Inl AlreadyUndone, s)"
    by (simp add: POST_def)
next
  assume ok: "POST s now body = (Inr r, s')"
  then obtain t R where b: "body ''transactionId'' = Some t"
    and f: "findUnique_transaction s t = Some R"
    and u: "undoTransaction s now t R = Some (s', r)"
    unfolding POST_success_iff by blast
  from undoTransaction_transactions[OF u]
  have tx: "transactions s' = map (\<lambda>x. if id_tx x = t then markUndone now (userId R) x else x) (transactions s)"
    by simp
  from f have "id_tx R = t" by (simp add: findUnique_transaction_SomeD)
  with f tx have "findUnique_transaction s' t = Some (markUndone now (userId R) R)"
    by (simp add: findUnique_transaction_def find_id_map_update)
  moreover have "status (markUndone now (userId R) R) = UNDONE"
    by (simp add: markUndone_def)
  ultimately show "POST s' now' body = (Inl AlreadyUndone, s')"
    using b by (simp add: POST_def)
next
  fix i assume i: "i < length (transactions s)" and st: "status (transactions s ! i) = UNDONE"
  from POST_snd_transactions[of s now body]
  show "status (transactions (snd (POST s now body)) ! i) = UNDONE"
    using i st by (auto simp: markUndone_def)
qed

theorem undo_already_undone_witness:
  "\<exists>r s'. POST db_two_putaways 3000 (undo_request ''T2'' ''bob'') = (Inr r, s')
      \<and> findUnique_transaction s' ''T2'' = Some r \<and> status r = UNDONE
      \<and> POST s' 4000 (undo_request ''T2'' ''bob'') = (Inl AlreadyUndone, s')
      \<and> 0 < length (transactions s') \<and> status (transactions s' ! 0) = UNDONE
      \<and> status (transactions (snd (POST s' 4000 (undo_request ''T2'' ''bob''))) ! 0) = UNDONE"
proof -
  let ?s = db_two_putaways
  let ?r = "markUndone 3000 ''alice'' putaway_T2"
  let ?s' = "\<lparr>transactions = [?r, putaway_T1], stock = [(''X'', ''L1'') \<mapsto> 10]\<rparr>"
  let ?body = "undo_request ''T2'' ''bob''"
  have b: "?body ''transactionId'' = Some ''T2''"
    by (simp add: undo_request_def)
  have p: "POST ?s 3000 ?body = (Inr ?r, ?s')"
    by (simp add: handler_defs db_two_putaways_def putaway_T1_def putaway_T2_def undo_request_def)
  have f: "findUnique_transaction ?s' ''T2'' = Some ?r"
    by (simp add: findUnique_transaction_def markUndone_def putaway_T2_def)
  have u: "status ?r = UNDONE"
    by (simp add: markUndone_def)
  have i: "0 < length (transactions ?s')" "status (transactions ?s' ! 0) = UNDONE"
    by (simp_all add: markUndone_def)
  from undo_already_undone [where s = ?s and body = ?body and now = 3000 and r = ?r and s' = ?s'
      and now' = 4000] p
  have again: "POST ?s' 4000 ?body = (Inl AlreadyUndone, ?s')"
    by blast
  from undo_already_undone [where s = ?s' and body = ?body and now = 4000 and tid = "''T2''"
      and R = ?r] b f u i
  have "POST ?s' 4000 ?body = (Inl AlreadyUndone, ?s')
        \<and> status (transactions (snd (POST ?s' 4000 ?body)) ! 0) = UNDONE"
    by blast
  with p f u i again show ?thesis by blast
qed

section \<open>The stock check\<close>

text \<open>
  C2 as stated fails on its own scenario. After the move into \<open>L2\<close> and the
  removal from \<open>L2\<close>, the removal is a newer completed record of the item, so
  the undo of the move is stopped by the recency check, which runs before the
  stock check: the response is \<open>NotLatest\<close>, not \<open>InsufficientStock\<close>.
\<close>

theorem undo_move_after_remove_counterexample:
  "findUnique_transaction db_move_then_remove ''T1'' = Some move_T1
   \<and> status move_T1 = COMPLETED \<and> type move_T1 = MOVE
   \<and> toLocationId move_T1 = Some ''L2''
   \<and> stock db_move_then_remove (itemId move_T1, ''L2'') = Some 4 \<and> 4 < quantity move_T1
   \<and> fst (POST db_move_then_remove 3000 (undo_request ''T1'' ''bob'')) \<noteq> Inl InsufficientStock"
  by (simp add: handler_defs db_move_then_remove_def move_T1_def remove_T2_def undo_request_def
        errors_distinct)

text \<open>
  C2, amended. For an undo of a \<open>COMPLETED\<close> \<open>PUTAWAY\<close> or \<open>MOVE\<close> record that
  passes the recency check, if the stock row of (itemId, toLocationId) exists
  and its quantity is less than the record's quantity, the call fails with
  \<open>InsufficientStock\<close> and changes neither the stock nor the records. After the
  move of 5 into \<open>L2\<close> and the removal of 1 from \<open>L2\<close>, the undo of the move
  fails with \<open>NotLatest\<close> and changes nothing.
\<close>

theorem undo_insufficient_stock:
  "(body ''transactionId'' = Some tid \<and> findUnique_transaction s tid = Some R
      \<and> status R = COMPLETED \<and> (type R = PUTAWAY \<or> type R = MOVE)
      \<and> \<not> (\<exists>t\<in>set (transactions s). itemId t = itemId R \<and> status t = COMPLETED
                \<and> createdAt R < createdAt t)
      \<and> toLocationId R = Some l \<and> stock s (itemId R, l) = Some q \<and> q < quantity R
    \<longrightarrow> POST s now body = (Inl InsufficientStock, s))
   \<and> POST db_move_then_remove now (undo_request ''T1'' u) = (Inl NotLatest, db_move_then_remove)"
proof (intro conjI impI)
  assume h: "body ''transactionId'' = Some tid \<and> findUnique_transaction s tid = Some R
      \<and> status R = COMPLETED \<and> (type R = PUTAWAY \<or> type R = MOVE)
      \<and> \<not> (\<exists>t\<in>set (transactions s). itemId t = itemId R \<and> status t = COMPLETED
                \<and> createdAt R < createdAt t)
      \<and> toLocationId R = Some l \<and> stock s (itemId R, l) = Some q \<and> q < quantity R"
  then have "moreRecentTransaction s R = None"
    unfolding moreRecentTransaction_None_iff by simp
  moreover from h have "canUndo s R = Inr False"
    by (auto simp: canUndo_def)
  ultimately show "POST s now body = (Inl InsufficientStock, s)"
    using h by (simp add: POST_def)
next
  show "POST db_move_then_remove now (undo_request ''T1'' u) = (Inl NotLatest, db_move_then_remove)"
    by (simp add: POST_def findUnique_transaction_def moreRecentTransaction_def
        db_move_then_remove_def move_T1_def remove_T2_def undo_request_def)
qed

theorem undo_insufficient_stock_witness:
  "findUnique_transaction db_move_short ''T1'' = Some move_T1
   \<and> status move_T1 = COMPLETED \<and> type move_T1 = MOVE
   \<and> toLocationId move_T1 = Some ''L2''
   \<and> stock db_move_short (itemId move_T1, ''L2'') = Some 4 \<and> 4 < quantity move_T1
   \<and> POST db_move_short 3000 (undo_request ''T1'' ''bob'') = (Inl InsufficientStock, db_move_short)"
proof -
  have b: "undo_request ''T1'' ''bob'' ''transactionId'' = Some ''T1''"
    by (simp add: undo_request_def)
  have f: "findUnique_transaction db_move_short ''T1'' = Some move_T1"
    by (simp add: findUnique_transaction_def db_move_short_def move_T1_def)
  have r: "status move_T1 = COMPLETED" "type move_T1 = PUTAWAY \<or> type move_T1 = MOVE"
    "type move_T1 = MOVE"
    "toLocationId move_T1 = Some ''L2''" "4 < quantity move_T1"
    by (simp_all add: move_T1_def)
  have n: "\<not> (\<exists>t\<in>set (transactions db_move_short). itemId t = itemId move_T1
             \<and> status t = COMPLETED \<and> createdAt move_T1 < createdAt t)"
    by (simp add: db_move_short_def)
  have q: "stock db_move_short (itemId move_T1, ''L2'') = Some 4"
    by (simp add: db_move_short_def move_T1_def)
  from undo_insufficient_stock [where body = "undo_request ''T1'' ''bob''" and tid = "''T1''"
      and s = db_move_short and R = move_T1 and l = "''L2''" and q = 4 and now = 3000]
    b f r n q
  have "POST db_move_short 3000 (undo_request ''T1'' ''bob'') = (Inl InsufficientStock, db_move_short)"
    by blast
  with f r q show ?thesis by simp
qed

text \<open>
  When the destination has no stock row at all, the handler does not reach
  the \<open>InsufficientStock\<close> response: the logging statement inside the branch
  reads the quantity of the missing row, and the call ends in the response of
  the \<open>catch\<close> block. Nothing is written.
\<close>

lemma undo_destination_row_missing:
  assumes "body ''transactionId'' = Some tid"
    and "findUnique_transaction s tid = Some R"
    and "status R = COMPLETED"
    and "type R = PUTAWAY \<or> type R = MOVE"
    and "moreRecentTransaction s R = None"
    and "toLocationId R = Some l"
    and "stock s (itemId R, l) = None"
  shows "POST s now body = (Inl Failed, s)"
  using assms by (auto simp: POST_def canUndo_def)

lemma undo_destination_row_missing_example:
  "POST db_putaway_no_row 3000 (undo_request ''T1'' ''bob'') = (Inl Failed, db_putaway_no_row)
   \<and> Failed \<noteq> InsufficientStock"
  by (simp add: POST_def findUnique_transaction_def moreRecentTransaction_def canUndo_def
        db_putaway_no_row_def putaway_T1_def undo_request_def errors_distinct)

section \<open>All or nothing\<close>

text \<open>
  C3. Every call of the undo handler either returns an error and leaves the
  stock and the records as they were, or succeeds, and then the compensating
  stock writes and the flip of the record to \<open>UNDONE\<close> are both in the
  resulting state: no response comes with the stock changed and the record
  not flipped, or the record flipped and the stock not changed.
\<close>

theorem undo_all_or_nothing:
  "case POST s now body of
     (Inl e, s') \<Rightarrow> s' = s
   | (Inr r, s') \<Rightarrow>
       (\<exists>tid R. body ''transactionId'' = Some tid
          \<and> findUnique_transaction s tid = Some R \<and> status R = COMPLETED
          \<and> r = markUndone now (userId R) R
          \<and> findUnique_transaction s' tid = Some r \<and> status r = UNDONE
          \<and> transactions s' =
              map (\<lambda>t. if id_tx t = tid then markUndone now (userId R) t else t) (transactions s)
          \<and> (case type R of
                PUTAWAY \<Rightarrow>
                  (\<exists>l q. toLocationId R = Some l \<and> stock s (itemId R, l) = Some q
                     \<and> stock s' = (stock s)((itemId R, l) \<mapsto> q - quantity R))
              | REMOVE \<Rightarrow>
                  (\<exists>l. fromLocationId R = Some l
                     \<and> stock s' = (stock s)((itemId R, l) \<mapsto>
                          (case stock s (itemId R, l) of
                             None \<Rightarrow> quantity R | Some q \<Rightarrow> q + quantity R)))
              | MOVE \<Rightarrow>
                  (\<exists>lt lf q st1. toLocationId R = Some lt \<and> fromLocationId R = Some lf
                     \<and> stock s (itemId R, lt) = Some q
                     \<and> st1 = (stock s)((itemId R, lt) \<mapsto> q - quantity R)
                     \<and> stock s' = st1((itemId R, lf) \<mapsto>
                          (case st1 (itemId R, lf) of
                             None \<Rightarrow> quantity R | Some c \<Rightarrow> c + quantity R)))))"
proof (cases "POST s now body")
  case (Pair res s')
  show ?thesis
  proof (cases res)
    case (Inl e)
    with Pair POST_error_unchanged show ?thesis by auto
  next
    case (Inr r)
    with Pair have ok: "POST s now body = (Inr r, s')" by simp
    from POST_success_effect[OF ok] show ?thesis
      unfolding ok by simp
  qed
qed

theorem undo_all_or_nothing_witness:
  "POST db_two_putaways 3000 (undo_request ''T1'' ''bob'') = (Inl NotLatest, db_two_putaways)
   \<and> (\<exists>r s'. POST db_two_putaways 3000 (undo_request ''T2'' ''bob'') = (Inr r, s')
         \<and> status r = UNDONE \<and> findUnique_transaction s' ''T2'' = Some r
         \<and> stock s' (''X'', ''L1'') = Some 10)"
proof -
  let ?s = db_two_putaways
  have e1: "fst (POST ?s 3000 (undo_request ''T1'' ''bob'')) = Inl NotLatest"
    by (simp add: handler_defs db_two_putaways_def putaway_T1_def putaway_T2_def undo_request_def)
  from undo_all_or_nothing [where s = ?s and now = 3000 and body = "undo_request ''T1'' ''bob''"] e1
  have p1: "POST ?s 3000 (undo_request ''T1'' ''bob'') = (Inl NotLatest, ?s)"
    by (cases "POST ?s 3000 (undo_request ''T1'' ''bob'')") auto
  have e2: "fst (POST ?s 3000 (undo_request ''T2'' ''bob'')) = Inr (markUndone 3000 ''alice'' putaway_T2)"
    by (simp add: handler_defs db_two_putaways_def putaway_T1_def putaway_T2_def undo_request_def)
  have f2: "findUnique_transaction ?s ''T2'' = Some putaway_T2"
    by (simp add: findUnique_transaction_def db_two_putaways_def putaway_T1_def putaway_T2_def)
  have q: "stock ?s (''X'', ''L1'') = Some 15" "type putaway_T2 = PUTAWAY"
    "toLocationId putaway_T2 = Some ''L1''" "itemId putaway_T2 = ''X''" "quantity putaway_T2 = 5"
    by (simp_all add: db_two_putaways_def putaway_T2_def)
  obtain r s' where p2: "POST ?s 3000 (undo_request ''T2'' ''bob'') = (Inr r, s')"
    using e2 by (cases "POST ?s 3000 (undo_request ''T2'' ''bob'')") auto
  from undo_all_or_nothing [where s = ?s and now = 3000 and body = "undo_request ''T2'' ''bob''"] p2 f2 q
  have "status r = UNDONE \<and> findUnique_transaction s' ''T2'' = Some r
         \<and> stock s' (''X'', ''L1'') = Some 10"
    by (auto simp: undo_request_def)
  with p1 p2 show ?thesis by blast
qed

section \<open>Who undid the transaction\<close>

text \<open>
  C4 says that a successful undo sets \<open>undoneByUserId\<close> to the id of the
  requesting user. The handler reads only \<open>transactionId\<close> from the request
  and writes \<^verbatim>\<open>undoneById: transaction.userId\<close> under the comment
  \<^verbatim>\<open>TODO: Get actual user ID from session\<close>: when \<open>bob\<close> undoes a put-away
  made by \<open>alice\<close>, the record is \<open>UNDONE\<close> at the current time, and undone by
  \<open>alice\<close>.
\<close>

theorem undo_marks_original_actor:
  "\<exists>r s'. POST db_two_putaways 3000 (undo_request ''T2'' ''bob'') = (Inr r, s')
      \<and> status r = UNDONE \<and> undoneAt r = Some 3000
      \<and> userId putaway_T2 = ''alice''
      \<and> undoneById r = Some ''alice'' \<and> undoneById r \<noteq> Some ''bob''"
  by (simp add: handler_defs db_two_putaways_def putaway_T1_def putaway_T2_def undo_request_def)

section \<open>Stock stays non-negative\<close>



section \<open>Undoing a removal\<close>

text \<open>
  C7 as stated fails where the incremented quantity does not fit the column:
  the record exists, is \<open>COMPLETED\<close>, is a \<open>REMOVE\<close> with its source location and
  is the latest of its item, and the undo does not succeed. The upsert is
  rejected, and the call ends in the response of the \<open>catch\<close> block with
  nothing changed.
\<close>

theorem undo_remove_overflow_counterexample:
  "undo_request ''T2'' ''bob'' ''transactionId'' = Some ''T2''
   \<and> findUnique_transaction db_remove_full ''T2'' = Some remove_T2
   \<and> status remove_T2 = COMPLETED \<and> type remove_T2 = REMOVE
   \<and> fromLocationId remove_T2 = Some ''L2''
   \<and> transactions db_remove_full = [remove_T2]
   \<and> stock db_remove_full (''X'', ''L2'') = Some 2147483647
   \<and> POST db_remove_full 3000 (undo_request ''T2'' ''bob'') = (Inl Failed, db_remove_full)"
  by (simp add: handler_defs db_remove_full_def remove_T2_def undo_request_def)

text \<open>
  C7, amended. The undo of a \<open>REMOVE\<close> record that exists, is \<open>COMPLETED\<close> and has
  no newer completed record of its item makes no stock check. When the
  quantity of the row of (itemId, fromLocationId) plus the record's quantity
  (the record's quantity alone when there is no row) fits the 32-bit column,
  the undo succeeds: it adds the record's quantity to the row, and creates
  the row with that quantity when there is none. When it does not fit, the
  call fails with the response of the \<open>catch\<close> block and changes nothing.
\<close>

theorem undo_remove_succeeds:
  assumes "body ''transactionId'' = Some tid"
    and "findUnique_transaction s tid = Some R"
    and "status R = COMPLETED"
    and "type R = REMOVE"
    and "fromLocationId R = Some l"
    and "\<not> (\<exists>t\<in>set (transactions s). itemId t = itemId R \<and> status t = COMPLETED
              \<and> createdAt R < createdAt t)"
  shows "(fitsInt (case stock s (itemId R, l) of None \<Rightarrow> quantity R | Some q \<Rightarrow> q + quantity R)
          \<longrightarrow> (\<exists>r s'. POST s now body = (Inr r, s') \<and> status r = UNDONE
                 \<and> findUnique_transaction s' tid = Some r
                 \<and> stock s' = (stock s)((itemId R, l) \<mapsto>
                      (case stock s (itemId R, l) of
                         None \<Rightarrow> quantity R | Some q \<Rightarrow> q + quantity R))))
       \<and> (\<not> fitsInt (case stock s (itemId R, l) of None \<Rightarrow> quantity R | Some q \<Rightarrow> q + quantity R)
          \<longrightarrow> POST s now body = (Inl Failed, s))"
proof (intro conjI impI)
  have m: "moreRecentTransaction s R = None"
    unfolding moreRecentTransaction_None_iff using assms(6) .
  have c: "canUndo s R = Inr True"
    using assms(4) by (simp add: canUndo_def)
  {
    assume "fitsInt (case stock s (itemId R, l) of None \<Rightarrow> quantity R | Some q \<Rightarrow> q + quantity R)"
    then obtain st where
      "stock_upsert (stock s) (itemId R) (fromLocationId R) (quantity R) = Some st"
      using assms(5)
        stock_upsert_fits[where st = "stock s" and item = "itemId R" and l = l and q = "quantity R"]
      by simp
    with assms(2,4) obtain s' r where "undoTransaction s now tid R = Some (s', r)"
      by (auto simp: undoTransaction_def transaction_update_def findUnique_transaction_def)
    with assms m c have ok: "POST s now body = (Inr r, s')"
      unfolding POST_success_iff by blast
    from POST_success_effect[OF ok] assms
    show "\<exists>r s'. POST s now body = (Inr r, s') \<and> status r = UNDONE
            \<and> findUnique_transaction s' tid = Some r
            \<and> stock s' = (stock s)((itemId R, l) \<mapsto>
                 (case stock s (itemId R, l) of None \<Rightarrow> quantity R | Some q \<Rightarrow> q + quantity R))"
      unfolding ok by auto
  }
  {
    assume "\<not> fitsInt (case stock s (itemId R, l) of None \<Rightarrow> quantity R | Some q \<Rightarrow> q + quantity R)"
    then have "stock_upsert (stock s) (itemId R) (fromLocationId R) (quantity R) = None"
      using assms(5)
        stock_upsert_overflow[where st = "stock s" and item = "itemId R" and l = l
          and q = "quantity R"]
      by simp
    with assms(4) have "undoTransaction s now tid R = None"
      by (simp add: undoTransaction_def)
    with assms(1,2,3) m c show "POST s now body = (Inl Failed, s)"
      by (simp add: POST_def)
  }
qed

theorem undo_remove_succeeds_witness:
  "(\<exists>r s'. POST db_remove_no_row 3000 (undo_request ''T2'' ''bob'') = (Inr r, s')
       \<and> status r = UNDONE \<and> stock db_remove_no_row (''X'', ''L2'') = None
       \<and> stock s' (''X'', ''L2'') = Some 1)
   \<and> (\<exists>r s'. POST db_move_then_remove 3000 (undo_request ''T2'' ''bob'') = (Inr r, s')
       \<and> status r = UNDONE \<and> stock db_move_then_remove (''X'', ''L2'') = Some 4
       \<and> stock s' (''X'', ''L2'') = Some 5)
   \<and> stock db_remove_full (''X'', ''L2'') = Some 2147483647
   \<and> POST db_remove_full 3000 (undo_request ''T2'' ''bob'') = (Inl Failed, db_remove_full)"
proof -
  let ?body = "undo_request ''T2'' ''bob''"
  have b: "?body ''transactionId'' = Some ''T2''"
    by (simp add: undo_request_def)
  have r: "status remove_T2 = COMPLETED" "type remove_T2 = REMOVE"
    "fromLocationId remove_T2 = Some ''L2''" "itemId remove_T2 = ''X''" "quantity remove_T2 = 1"
    by (simp_all add: remove_T2_def)
  have f1: "findUnique_transaction db_remove_no_row ''T2'' = Some remove_T2"
    by (simp add: findUnique_transaction_def db_remove_no_row_def remove_T2_def)
  have n1: "\<not> (\<exists>t\<in>set (transactions db_remove_no_row). itemId t = itemId remove_T2
              \<and> status t = COMPLETED \<and> createdAt remove_T2 < createdAt t)"
    by (simp add: db_remove_no_row_def)
  have q1: "stock db_remove_no_row (''X'', ''L2'') = None"
    by (simp add: db_remove_no_row_def)
  have fit1: "fitsInt 1" and fit2: "fitsInt (4 + 1)" and fit3: "\<not> fitsInt (2147483647 + 1)"
    by (simp_all add: fitsInt_def)
  from undo_remove_succeeds [where body = ?body and now = 3000, OF b f1 r(1,2,3) n1] q1 r(4,5) fit1
  have w1: "\<exists>r s'. POST db_remove_no_row 3000 ?body = (Inr r, s')
       \<and> status r = UNDONE \<and> stock db_remove_no_row (''X'', ''L2'') = None
       \<and> stock s' (''X'', ''L2'') = Some 1"
    by auto
  have f2: "findUnique_transaction db_move_then_remove ''T2'' = Some remove_T2"
    by (simp add: findUnique_transaction_def db_move_then_remove_def remove_T2_def)
  have n2: "\<not> (\<exists>t\<in>set (transactions db_move_then_remove). itemId t = itemId remove_T2
              \<and> status t = COMPLETED \<and> createdAt remove_T2 < createdAt t)"
    by (simp add: db_move_then_remove_def remove_T2_def move_T1_def)
  have q2: "stock db_move_then_remove (''X'', ''L2'') = Some 4"
    by (simp add: db_move_then_remove_def)
  from undo_remove_succeeds [where body = ?body and now = 3000, OF b f2 r(1,2,3) n2] q2 r(4,5) fit2
  have w2: "\<exists>r s'. POST db_move_then_remove 3000 ?body = (Inr r, s')
       \<and> status r = UNDONE \<and> stock db_move_then_remove (''X'', ''L2'') = Some 4
       \<and> stock s' (''X'', ''L2'') = Some 5"
    by auto
  have f3: "findUnique_transaction db_remove_full ''T2'' = Some remove_T2"
    by (simp add: findUnique_transaction_def db_remove_full_def remove_T2_def)
  have n3: "\<not> (\<exists>t\<in>set (transactions db_remove_full). itemId t = itemId remove_T2
              \<and> status t = COMPLETED \<and> createdAt remove_T2 < createdAt t)"
    by (simp add: db_remove_full_def)
  have q3: "stock db_remove_full (''X'', ''L2'') = Some 2147483647"
    by (simp add: db_remove_full_def)
  from undo_remove_succeeds [where body = ?body and now = 3000, OF b f3 r(1,2,3) n3] q3 r(4,5) fit3
  have w3: "POST db_remove_full 3000 ?body = (Inl Failed, db_remove_full)"
    by auto
  from w1 w2 w3 q3 show ?thesis by blast
qed

section \<open>What an undo leaves alone\<close>

text \<open>
  C8. A successful undo changes, of the target record, only the undo fields
  (status, undoneAt, undoneById): its id, type, quantity, item, locations,
  actor and creation date are as before. The table has the same rows in the
  same places, each with its core fields, and the rows with another id are
  untouched: no record is created or deleted. A stock row that changes is a
  row of the record's item at its source or destination location.
\<close>

theorem undo_frame:
  assumes "POST s now body = (Inr r, s')"
    and "body ''transactionId'' = Some tid"
    and "findUnique_transaction s tid = Some R"
  shows "r = R\<lparr>status := status r, undoneAt := undoneAt r, undoneById := undoneById r\<rparr>
       \<and> length (transactions s') = length (transactions s)
       \<and> (\<forall>i < length (transactions s).
             transactions s' ! i =
               (transactions s ! i)\<lparr>status := status (transactions s' ! i),
                  undoneAt := undoneAt (transactions s' ! i),
                  undoneById := undoneById (transactions s' ! i)\<rparr>
             \<and> (id_tx (transactions s ! i) \<noteq> tid \<longrightarrow> transactions s' ! i = transactions s ! i))
       \<and> (\<forall>item loc. stock s' (item, loc) \<noteq> stock s (item, loc) \<longrightarrow>
             item = itemId R \<and> (fromLocationId R = Some loc \<or> toLocationId R = Some loc))"
proof -
  from POST_success_effect[OF assms(1)] assms(2,3)
  have r: "r = markUndone now (userId R) R"
    and tx: "transactions s' =
        map (\<lambda>t. if id_tx t = tid then markUndone now (userId R) t else t) (transactions s)"
    and st: "case type R of
              PUTAWAY \<Rightarrow>
                (\<exists>l q. toLocationId R = Some l \<and> stock s (itemId R, l) = Some q
                   \<and> stock s' = (stock s)((itemId R, l) \<mapsto> q - quantity R))
            | REMOVE \<Rightarrow>
                (\<exists>l. fromLocationId R = Some l
                   \<and> stock s' = (stock s)((itemId R, l) \<mapsto>
                        (case stock s (itemId R, l) of
                           None \<Rightarrow> quantity R | Some q \<Rightarrow> q + quantity R)))
            | MOVE \<Rightarrow>
                (\<exists>lt lf q st1. toLocationId R = Some lt \<and> fromLocationId R = Some lf
                   \<and> stock s (itemId R, lt) = Some q
                   \<and> st1 = (stock s)((itemId R, lt) \<mapsto> q - quantity R)
                   \<and> stock s' = st1((itemId R, lf) \<mapsto>
                        (case st1 (itemId R, lf) of
                           None \<Rightarrow> quantity R | Some c \<Rightarrow> c + quantity R)))"
    by auto
  have core: "\<And>t. markUndone now (userId R) t =
      t\<lparr>status := status (markUndone now (userId R) t),
         undoneAt := undoneAt (markUndone now (userId R) t),
         undoneById := undoneById (markUndone now (userId R) t)\<rparr>"
    by (simp add: markUndone_def)
  have a: "r = R\<lparr>status := status r, undoneAt := undoneAt r, undoneById := undoneById r\<rparr>"
    unfolding r by (rule core)
  have b: "length (transactions s') = length (transactions s)"
    using tx by simp
  have c: "\<forall>i < length (transactions s).
             transactions s' ! i =
               (transactions s ! i)\<lparr>status := status (transactions s' ! i),
                  undoneAt := undoneAt (transactions s' ! i),
                  undoneById := undoneById (transactions s' ! i)\<rparr>
             \<and> (id_tx (transactions s ! i) \<noteq> tid \<longrightarrow> transactions s' ! i = transactions s ! i)"
    using tx core by simp
  have d: "\<forall>item loc. stock s' (item, loc) \<noteq> stock s (item, loc) \<longrightarrow>
             item = itemId R \<and> (fromLocationId R = Some loc \<or> toLocationId R = Some loc)"
    using st by (cases "type R") (auto split: if_splits)
  from a b c d show ?thesis by blast
qed

theorem undo_frame_witness:
  "\<exists>r s'. POST db_move_and_other 3000 (undo_request ''T1'' ''bob'') = (Inr r, s')
      \<and> r = move_T1\<lparr>status := status r, undoneAt := undoneAt r, undoneById := undoneById r\<rparr>
      \<and> status r = UNDONE
      \<and> length (transactions s') = 2
      \<and> transactions s' ! 1 = putaway_Y
      \<and> stock s' (''Y'', ''L2'') = Some 7
      \<and> stock s' (''X'', ''L1'') = Some 5 \<and> stock s' (''X'', ''L2'') = Some 0"
proof -
  let ?s = db_move_and_other
  let ?body = "undo_request ''T1'' ''bob''"
  have b: "?body ''transactionId'' = Some ''T1''"
    by (simp add: undo_request_def)
  have f: "findUnique_transaction ?s ''T1'' = Some move_T1"
    by (simp add: findUnique_transaction_def db_move_and_other_def move_T1_def)
  have e: "fst (POST ?s 3000 ?body) = Inr (markUndone 3000 ''alice'' move_T1)"
    "stock (snd (POST ?s 3000 ?body)) (''X'', ''L1'') = Some 5"
    "stock (snd (POST ?s 3000 ?body)) (''X'', ''L2'') = Some 0"
    by (simp_all add: handler_defs db_move_and_other_def move_T1_def putaway_Y_def undo_request_def)
  then obtain r s' where p: "POST ?s 3000 ?body = (Inr r, s')"
    and u: "status r = UNDONE"
    and x: "stock s' (''X'', ''L1'') = Some 5" "stock s' (''X'', ''L2'') = Some 0"
    by (cases "POST ?s 3000 ?body") (auto simp: markUndone_def)
  have o: "length (transactions ?s) = 2" "transactions ?s ! 1 = putaway_Y"
    "id_tx putaway_Y \<noteq> ''T1''" "stock ?s (''Y'', ''L2'') = Some 7" "''Y'' \<noteq> itemId move_T1"
    by (simp_all add: db_move_and_other_def putaway_Y_def move_T1_def)
  from undo_frame [OF p b f]
  have fr: "r = move_T1\<lparr>status := status r, undoneAt := undoneAt r, undoneById := undoneById r\<rparr>"
    and len: "length (transactions s') = length (transactions ?s)"
    and rows: "\<forall>i < length (transactions ?s).
        id_tx (transactions ?s ! i) \<noteq> ''T1'' \<longrightarrow> transactions s' ! i = transactions ?s ! i"
    and stk: "\<forall>item loc. stock s' (item, loc) \<noteq> stock ?s (item, loc) \<longrightarrow>
             item = itemId move_T1
             \<and> (fromLocationId move_T1 = Some loc \<or> toLocationId move_T1 = Some loc)"
    by blast+
  from rows o have "transactions s' ! 1 = putaway_Y"
    by simp
  moreover from stk o have "stock s' (''Y'', ''L2'') = Some 7"
    by metis
  ultimately show ?thesis using p fr u len o x by auto
qed

section \<open>The button and the server agree\<close>

text \<open>
  C10. When the list shown by the client holds all the transactions of the
  item of a transaction (the rows of that item in the list are the rows of
  that item in the table), \<open>hasNewerTransactions\<close> is true of the transaction
  if and only if the recency query of the server finds a row; so for a
  \<open>COMPLETED\<close> transaction of the table the button is disabled by
  \<open>hasNewerTransactions\<close> exactly when the server answers the undo with
  \<open>NotLatest\<close>.
\<close>

theorem hasNewerTransactions_iff_NotLatest:
  assumes "\<forall>x. itemId x = itemId t \<longrightarrow> (x \<in> set txs \<longleftrightarrow> x \<in> set (transactions s))"
  shows "(hasNewerTransactions txs t \<longleftrightarrow> moreRecentTransaction s t \<noteq> None)
       \<and> (body ''transactionId'' = Some (id_tx t)
            \<and> findUnique_transaction s (id_tx t) = Some t \<and> status t = COMPLETED
          \<longrightarrow> (hasNewerTransactions txs t \<longleftrightarrow> fst (POST s now body) = Inl NotLatest))"
proof -
  have "hasNewerTransactions txs t \<longleftrightarrow>
          (\<exists>x\<in>set txs. itemId x = itemId t \<and> status x = COMPLETED \<and> createdAt t < createdAt x)"
    by (auto simp: hasNewerTransactions_def filter_empty_conv)
  also have "\<dots> \<longleftrightarrow>
          (\<exists>x\<in>set (transactions s). itemId x = itemId t \<and> status x = COMPLETED
              \<and> createdAt t < createdAt x)"
    using assms by blast
  also have "\<dots> \<longleftrightarrow> moreRecentTransaction s t \<noteq> None"
    unfolding moreRecentTransaction_None_iff by blast
  finally have a: "hasNewerTransactions txs t \<longleftrightarrow> moreRecentTransaction s t \<noteq> None" .
  then show ?thesis
    using POST_NotLatest_iff by blast
qed

theorem hasNewerTransactions_iff_NotLatest_witness:
  "hasNewerTransactions [putaway_T1, putaway_T2] putaway_T1
   \<and> fst (POST db_two_putaways 3000 (undo_request ''T1'' ''bob'')) = Inl NotLatest
   \<and> \<not> hasNewerTransactions [putaway_T1, putaway_T2] putaway_T2
   \<and> fst (POST db_two_putaways 3000 (undo_request ''T2'' ''bob'')) \<noteq> Inl NotLatest"
proof -
  let ?s = db_two_putaways
  let ?txs = "[putaway_T1, putaway_T2]"
  have h1: "\<forall>x. itemId x = itemId putaway_T1 \<longrightarrow>
              (x \<in> set ?txs \<longleftrightarrow> x \<in> set (transactions ?s))"
    and h2: "\<forall>x. itemId x = itemId putaway_T2 \<longrightarrow>
              (x \<in> set ?txs \<longleftrightarrow> x \<in> set (transactions ?s))"
    by (auto simp: db_two_putaways_def)
  have b1: "undo_request ''T1'' ''bob'' ''transactionId'' = Some (id_tx putaway_T1)"
    and b2: "undo_request ''T2'' ''bob'' ''transactionId'' = Some (id_tx putaway_T2)"
    by (simp_all add: undo_request_def putaway_T1_def putaway_T2_def)
  have f1: "findUnique_transaction ?s (id_tx putaway_T1) = Some putaway_T1"
    and f2: "findUnique_transaction ?s (id_tx putaway_T2) = Some putaway_T2"
    by (simp_all add: findUnique_transaction_def db_two_putaways_def putaway_T1_def putaway_T2_def)
  have c: "status putaway_T1 = COMPLETED" "status putaway_T2 = COMPLETED"
    by (simp_all add: putaway_T1_def putaway_T2_def)
  have n1: "hasNewerTransactions ?txs putaway_T1"
    and n2: "\<not> hasNewerTransactions ?txs putaway_T2"
    by (simp_all add: hasNewerTransactions_def putaway_T1_def putaway_T2_def)
  from hasNewerTransactions_iff_NotLatest [OF h1, where body = "undo_request ''T1'' ''bob''"
      and now = 3000] b1 f1 c n1
  have "fst (POST ?s 3000 (undo_request ''T1'' ''bob'')) = Inl NotLatest"
    by blast
  moreover
  from hasNewerTransactions_iff_NotLatest [OF h2, where body = "undo_request ''T2'' ''bob''"
      and now = 3000] b2 f2 c n2
  have "fst (POST ?s 3000 (undo_request ''T2'' ''bob'')) \<noteq> Inl NotLatest"
    by blast
  ultimately show ?thesis using n1 n2 by blast
qed

section \<open>Two undos at once\<close>

text \<open>
  C9 asks that the reads that validate an undo and the writes that act on it
  run in one serializable transaction, so that two overlapping calls cannot
  both pass validation against a stale snapshot. The handler opens the
  transaction for the writes only (\<^verbatim>\<open>// 4. Perform undo operation in a transaction\<close>)
  and reads before it. Two requests for the put-away of 10, with 10 in stock:
  both validate on the same database; the first commits and leaves 0 and the
  record \<open>UNDONE\<close>, a state on which the second would be answered
  \<open>AlreadyUndone\<close>; the second commits its stale decision all the same, and the
  stock is at -10.
\<close>

theorem concurrent_undo_commits_twice:
  "validate db_single_putaway (undo_request ''T1'' ''bob'') = Inr (''T1'', putaway_T1)
   \<and> validate db_single_putaway (undo_request ''T1'' ''carol'') = Inr (''T1'', putaway_T1)
   \<and> fst (commit db_single_putaway 3000 ''T1'' putaway_T1) =
        Inr (markUndone 3000 ''alice'' putaway_T1)
   \<and> stock (snd (commit db_single_putaway 3000 ''T1'' putaway_T1)) (''X'', ''L1'') = Some 0
   \<and> validate (snd (commit db_single_putaway 3000 ''T1'' putaway_T1))
        (undo_request ''T1'' ''carol'') = Inl AlreadyUndone
   \<and> fst (commit (snd (commit db_single_putaway 3000 ''T1'' putaway_T1)) 3001 ''T1'' putaway_T1) =
        Inr (markUndone 3001 ''alice'' putaway_T1)
   \<and> stock (snd (commit (snd (commit db_single_putaway 3000 ''T1'' putaway_T1)) 3001 ''T1''
        putaway_T1)) (''X'', ''L1'') = Some (- 10)"
  by (simp add: validate_def commit_def handler_defs db_single_putaway_def putaway_T1_def
        undo_request_def)

end
